theory Spec2Isabelle
  imports Main
begin

section \<open>Python values and built-in operations used by monitors.py\<close>

text \<open>
  Values that travel through the client unchanged (payload fields, decoded JSON bodies).
  The client never inspects them.
\<close>

datatype pyval =
    PyNone
  | PyBool bool
  | PyInt int
  | PyStr string
  | PyList "pyval list"
  | PyDict "(string \<times> pyval) list"

text \<open>
  Arguments that the client interpolates into a string with \<open>str.format\<close>: the monitor
  id (documented as \<open>int\<close> for \<open>show\<close>, \<open>str\<close> elsewhere) and the page index (\<open>int\<close>).
\<close>

datatype fmt_arg = AInt int | AStr string

text \<open>A Python \<open>dict\<close> with string keys, in insertion order.\<close>

type_synonym dict = "(string \<times> pyval) list"

datatype error =
    KeyError string
  | IndexError
  | TransportError string

text \<open>\<open>d[k] = v\<close>: an existing key keeps its position, a new key goes to the end.\<close>

fun dict_setitem :: "dict \<Rightarrow> string \<Rightarrow> pyval \<Rightarrow> dict" where
  "dict_setitem [] k v = [(k, v)]"
| "dict_setitem ((k', v') # d) k v =
     (if k' = k then (k', v) # d else (k', v') # dict_setitem d k v)"

text \<open>\<open>d.update(**kwargs)\<close>: assigns every item of \<open>kwargs\<close> in turn.\<close>

fun dict_update :: "dict \<Rightarrow> dict \<Rightarrow> dict" where
  "dict_update d [] = d"
| "dict_update d ((k, v) # kw) = dict_update (dict_setitem d k v) kw"

text \<open>\<open>str(n)\<close> for an \<open>int\<close>: decimal digits, a leading minus sign when negative.\<close>

definition digit_char :: "nat \<Rightarrow> char" where
  "digit_char d = char_of (48 + d)"

function str_nat :: "nat \<Rightarrow> string" where
  "str_nat n = (if n < 10 then [digit_char n] else str_nat (n div 10) @ [digit_char (n mod 10)])"
  by pat_completeness auto
termination
  by (relation "measure (\<lambda>n. n)") auto

declare str_nat.simps [simp del]

definition str_int :: "int \<Rightarrow> string" where
  "str_int i = (if i < 0 then CHR ''-'' # str_nat (nat (- i)) else str_nat (nat i))"

text \<open>The number that a string of decimal digits denotes (the inverse of \<open>str_nat\<close>).\<close>

definition digits_value :: "string \<Rightarrow> nat" where
  "digits_value s = foldl (\<lambda>a c. 10 * a + (of_char c - 48)) 0 s"

text \<open>\<open>'{0}'.format(x)\<close>: a string is inserted as it is, an int as \<open>str(x)\<close>.\<close>

fun py_format :: "fmt_arg \<Rightarrow> string" where
  "py_format (AStr s) = s"
| "py_format (AInt i) = str_int i"

text \<open>Truth value of an optional argument: \<open>None\<close>, \<open>0\<close> and \<open>''\<close> are falsy.\<close>

fun truthy :: "fmt_arg option \<Rightarrow> bool" where
  "truthy None = False"
| "truthy (Some (AInt i)) = (i \<noteq> 0)"
| "truthy (Some (AStr s)) = (s \<noteq> [])"

text \<open>
  \<open>s.rsplit(sep, 1)\<close>: splits once, at the last occurrence of \<open>sep\<close>; a string without
  \<open>sep\<close> comes back as the only element.
\<close>

definition rsplit1 :: "char \<Rightarrow> string \<Rightarrow> string list" where
  "rsplit1 sep s =
     (if sep \<in> set s
      then [rev (tl (dropWhile (\<lambda>c. c \<noteq> sep) (rev s))), rev (takeWhile (\<lambda>c. c \<noteq> sep) (rev s))]
      else [s])"

text \<open>\<open>xs[-1]\<close>: the last element, \<open>IndexError\<close> on an empty list.\<close>

definition index_last :: "'a list \<Rightarrow> error + 'a" where
  "index_last xs = (case xs of [] \<Rightarrow> Inl IndexError | _ \<Rightarrow> Inr (last xs))"

section \<open>The base client and the transport's response\<close>

text \<open>
  The raw response object handed back by the primitives when \<open>get_raw_response=True\<close>.
  \<open>resp_headers\<close> is the lookup \<open>response.headers[k]\<close>.
\<close>

record response =
  status_code :: int
  resp_headers :: "string \<Rightarrow> string option"
  body :: string

text \<open>
  \<open>response.ok\<close> is a property of the HTTP library's response object (requests.Response),
  computed from the status code: it is true unless \<open>raise_for_status()\<close> would raise,
  and that raises exactly for \<open>400 <= status_code < 600\<close>.
\<close>

definition ok :: "response \<Rightarrow> bool" where
  "ok r = (\<not> (400 \<le> status_code r \<and> status_code r < 600))"

text \<open>The keyword arguments of a call to one of the primitives of the base client.\<close>

record kwargs =
  url :: string
  headers :: "(string \<times> string) list"
  params :: "string option"
  data :: "dict option"
  get_raw_response :: bool

text \<open>
  The base class \<open>Synthetics\<close> (module \<open>base\<close>) is a parameter: its base URL, its default
  headers and its four primitives. A primitive either raises (\<open>Inl\<close>) or returns: \<open>_get\<close> the
  decoded JSON body, the others (always called with \<open>get_raw_response=True\<close>) the raw
  response.
\<close>

record base =
  URL :: string
  self_headers :: "(string \<times> string) list"
  prim_get :: "kwargs \<Rightarrow> error + pyval"
  prim_post :: "kwargs \<Rightarrow> error + response"
  prim_put :: "kwargs \<Rightarrow> error + response"
  prim_delete :: "kwargs \<Rightarrow> error + response"

text \<open>
  Modelled from the spec: \<open>build_param_string\<close> is a method of the base client, whose
  module is not part of the sources at hand. The spec says that \<open>list\<close> "builds an optional
  \<open>page=<n>\<close> query parameter", that the query string then "contains exactly
  \<open>page=<page>\<close>" and that without a page the parameter is omitted entirely: the entries
  that are present are kept and joined with \<open>&\<close>.
\<close>

fun join_amp :: "string list \<Rightarrow> string" where
  "join_amp [] = []"
| "join_amp [p] = p"
| "join_amp (p # q # ps) = p @ CHR ''&'' # join_amp (q # ps)"

definition build_param_string :: "string option list \<Rightarrow> string" where
  "build_param_string filters = join_amp (List.map_filter (\<lambda>p. p) filters)"

section \<open>Monitors\<close>

subsection \<open>list (lines 51-59)\<close>

definition list_filters :: "fmt_arg option \<Rightarrow> string option list" where
  "list_filters page =
     [if truthy page then Some (''page='' @ py_format (the page)) else None]"

definition list_request :: "base \<Rightarrow> fmt_arg option \<Rightarrow> kwargs" where
  "list_request self page =
     \<lparr>url = URL self @ ''monitors'',
      headers = self_headers self,
      params = Some (build_param_string (list_filters page)),
      data = None,
      get_raw_response = False\<rparr>"

definition list_monitors :: "base \<Rightarrow> fmt_arg option \<Rightarrow> error + pyval" where
  "list_monitors self page = prim_get self (list_request self page)"

subsection \<open>show (lines 72-75) and show_locations (lines 84-87)\<close>





subsection \<open>create (lines 117-133)\<close>

definition create_data :: "pyval \<Rightarrow> pyval \<Rightarrow> pyval \<Rightarrow> pyval \<Rightarrow> pyval \<Rightarrow> dict \<Rightarrow> dict" where
  "create_data name type' frequency locations status kwargs =
     dict_update
       [(''name'', name),
        (''type'', type'),
        (''frequency'', frequency),
        (''locations'', locations),
        (''status'', status)]
       kwargs"

definition create_request ::
  "base \<Rightarrow> pyval \<Rightarrow> pyval \<Rightarrow> pyval \<Rightarrow> pyval \<Rightarrow> pyval \<Rightarrow> dict \<Rightarrow> kwargs" where
  "create_request self name type' frequency locations status kwargs =
     \<lparr>url = URL self @ ''monitors'',
      headers = self_headers self,
      params = None,
      data = Some (create_data name type' frequency locations status kwargs),
      get_raw_response = True\<rparr>"

definition create_result :: "response \<Rightarrow> error + string" where
  "create_result response =
     (case resp_headers response ''Location'' of
        None \<Rightarrow> Inl (KeyError ''Location'')
      | Some location \<Rightarrow> index_last (rsplit1 CHR ''/'' location))"

definition create ::
  "base \<Rightarrow> pyval \<Rightarrow> pyval \<Rightarrow> pyval \<Rightarrow> pyval \<Rightarrow> pyval \<Rightarrow> dict \<Rightarrow> error + string" where
  "create self name type' frequency locations status kwargs =
     (case prim_post self (create_request self name type' frequency locations status kwargs) of
        Inl e \<Rightarrow> Inl e
      | Inr response \<Rightarrow> create_result response)"

subsection \<open>update (lines 166-185)\<close>

definition update_data :: "pyval \<Rightarrow> pyval \<Rightarrow> pyval \<Rightarrow> pyval \<Rightarrow> pyval \<Rightarrow> dict \<Rightarrow> dict" where
  "update_data name type' frequency locations status kwargs =
     dict_update
       [(''name'', name),
        (''type'', type'),
        (''frequency'', frequency),
        (''locations'', locations),
        (''status'', status)]
       kwargs"

definition update_request ::
  "base \<Rightarrow> fmt_arg \<Rightarrow> pyval \<Rightarrow> pyval \<Rightarrow> pyval \<Rightarrow> pyval \<Rightarrow> pyval \<Rightarrow> dict \<Rightarrow> kwargs" where
  "update_request self id' name type' frequency locations status kwargs =
     \<lparr>url = URL self @ ''monitors/'' @ py_format id',
      headers = self_headers self,
      params = None,
      data = Some (update_data name type' frequency locations status kwargs),
      get_raw_response = True\<rparr>"

definition update ::
  "base \<Rightarrow> fmt_arg \<Rightarrow> pyval \<Rightarrow> pyval \<Rightarrow> pyval \<Rightarrow> pyval \<Rightarrow> pyval \<Rightarrow> dict \<Rightarrow> error + bool" where
  "update self id' name type' frequency locations status kwargs =
     (case prim_put self (update_request self id' name type' frequency locations status kwargs) of
        Inl e \<Rightarrow> Inl e
      | Inr response \<Rightarrow> (if ok response then Inr True else Inr False))"

subsection \<open>update_script (lines 207-223)\<close>

definition update_script_data :: "pyval \<Rightarrow> pyval option \<Rightarrow> dict" where
  "update_script_data scriptText scriptLocations =
     (let data = [(''scriptText'', scriptText)]
      in case scriptLocations of
           None \<Rightarrow> data
         | Some sl \<Rightarrow> dict_setitem data ''scriptLocations'' sl)"

definition update_script_request :: "base \<Rightarrow> fmt_arg \<Rightarrow> pyval \<Rightarrow> pyval option \<Rightarrow> kwargs" where
  "update_script_request self id' scriptText scriptLocations =
     \<lparr>url = URL self @ ''monitors/'' @ py_format id' @ ''/script'',
      headers = self_headers self,
      params = None,
      data = Some (update_script_data scriptText scriptLocations),
      get_raw_response = True\<rparr>"

definition update_script :: "base \<Rightarrow> fmt_arg \<Rightarrow> pyval \<Rightarrow> pyval option \<Rightarrow> error + bool" where
  "update_script self id' scriptText scriptLocations =
     (case prim_put self (update_script_request self id' scriptText scriptLocations) of
        Inl e \<Rightarrow> Inl e
      | Inr response \<Rightarrow> (if ok response then Inr True else Inr False))"

subsection \<open>delete (lines 240-249)\<close>



subsection \<open>Example clients\<close>

text \<open>
  A base client at URL \<open>u\<close> whose \<open>_get\<close> always answers \<open>g\<close> and whose other primitives
  always answer \<open>a\<close>; used for the concrete examples below.
\<close>

definition stub :: "string \<Rightarrow> error + pyval \<Rightarrow> error + response \<Rightarrow> base" where
  "stub u g a =
     \<lparr>URL = u,
      self_headers = [(''X-Api-Key'', ''k'')],
      prim_get = (\<lambda>_. g),
      prim_post = (\<lambda>_. a),
      prim_put = (\<lambda>_. a),
      prim_delete = (\<lambda>_. a)\<rparr>"

definition reply :: "int \<Rightarrow> (string \<times> string) list \<Rightarrow> string \<Rightarrow> response" where
  "reply code hs b = \<lparr>status_code = code, resp_headers = map_of hs, body = b\<rparr>"

section \<open>Properties of the built-in operations\<close>

lemma stub_simps:
  "URL (stub u g a) = u"
  "self_headers (stub u g a) = [(''X-Api-Key'', ''k'')]"
  "prim_get (stub u g a) c = g"
  "prim_post (stub u g a) c = a"
  "prim_put (stub u g a) c = a"
  "prim_delete (stub u g a) c = a"
  by (simp_all add: stub_def)

lemma reply_simps:
  "status_code (reply code hs b) = code"
  "resp_headers (reply code hs b) = map_of hs"
  "body (reply code hs b) = b"
  by (simp_all add: reply_def)

lemma digits_value_snoc: "digits_value (s @ [c]) = 10 * digits_value s + (of_char c - 48)"
  by (simp add: digits_value_def)

lemma of_char_digit_char: "d < 10 \<Longrightarrow> of_char (digit_char d) = 48 + d"
  by (simp add: digit_char_def)

lemma digits_value_str_nat: "digits_value (str_nat n) = n"
proof (induction n rule: str_nat.induct)
  case (1 n)
  show ?case
  proof (cases "n < 10")
    case True
    then show ?thesis
      by (subst str_nat.simps) (simp add: digits_value_def of_char_digit_char)
  next
    case False
    with 1 have "digits_value (str_nat (n div 10)) = n div 10" by simp
    with False show ?thesis
      by (subst str_nat.simps) (simp add: digits_value_snoc of_char_digit_char)
  qed
qed


lemma keys_dict_setitem: "set (map fst (dict_setitem d k v)) = insert k (set (map fst d))"
  by (induction d k v rule: dict_setitem.induct) auto



lemma keys_dict_update:
  "set (map fst (dict_update d kw)) = set (map fst d) \<union> set (map fst kw)"
  by (induction d kw rule: dict_update.induct) (auto simp: keys_dict_setitem simp flip: set_map)


lemma rsplit1_decomp:
  assumes "sep \<in> set s"
  shows "s = hd (rsplit1 sep s) @ sep # last (rsplit1 sep s)"
proof -
  let ?P = "\<lambda>c. c \<noteq> sep"
  let ?tw = "takeWhile ?P (rev s)" and ?dw = "dropWhile ?P (rev s)"
  from assms have ne: "?dw \<noteq> []" by auto
  then have "hd ?dw = sep" using hd_dropWhile [of ?P "rev s"] by simp
  with ne have dw: "?dw = sep # tl ?dw" by (cases ?dw) auto
  have "rev s = ?tw @ ?dw" by simp
  then have "rev s = ?tw @ sep # tl ?dw" using dw by simp
  then have "rev (rev s) = rev (?tw @ sep # tl ?dw)" by (rule arg_cong)
  then have "s = rev (tl ?dw) @ sep # rev ?tw" by simp
  with assms show ?thesis by (simp add: rsplit1_def)
qed

lemma rsplit1_no_sep: "sep \<notin> set s \<Longrightarrow> rsplit1 sep s = [s]"
  by (simp add: rsplit1_def)

lemma last_rsplit1_no_sep: "sep \<notin> set (last (rsplit1 sep s))"
  by (auto simp: rsplit1_def dest: set_takeWhileD)

lemma index_last_rsplit1: "index_last (rsplit1 sep s) = Inr (last (rsplit1 sep s))"
  by (simp add: index_last_def rsplit1_def)

lemma create_result_location:
  assumes "resp_headers r ''Location'' = Some loc"
  shows "\<exists>seg. create_result r = Inr seg \<and> CHR ''/'' \<notin> set seg \<and>
           (loc = seg \<or> (\<exists>pre. loc = pre @ CHR ''/'' # seg))"
proof (cases "CHR ''/'' \<in> set loc")
  case True
  from rsplit1_decomp [OF True] show ?thesis
    using assms by (auto simp: create_result_def index_last_rsplit1 last_rsplit1_no_sep)
next
  case False
  then show ?thesis
    using assms by (simp add: create_result_def index_last_def rsplit1_no_sep)
qed

section \<open>Properties of the monitors client\<close>

text \<open>
  C2. Whenever the POST issued by \<open>create\<close> returns a response that has a \<open>Location\<close>
  header, \<open>create\<close> returns the trailing path segment of the header's value: a string
  without \<open>/\<close> that is the whole value when the value has no \<open>/\<close>, and otherwise is what
  follows the last \<open>/\<close> of the value.
\<close>

theorem create_returns_trailing_segment:
  assumes "prim_post self (create_request self name type' frequency locations status kwargs) = Inr r"
    and "resp_headers r ''Location'' = Some loc"
  shows "\<exists>seg. create self name type' frequency locations status kwargs = Inr seg \<and>
           CHR ''/'' \<notin> set seg \<and> (loc = seg \<or> (\<exists>pre. loc = pre @ CHR ''/'' # seg))"
  using create_result_location [OF assms(2)] assms(1) by (simp add: create_def)

theorem create_returns_trailing_segment_witness:
  "create (stub ''https://synthetics.newrelic.com/synthetics/api/v1/''
             (Inl (TransportError ''unused''))
             (Inr (reply 201
                [(''Location'', ''https://synthetics.newrelic.com/synthetics/api/v1/monitors/abc-123'')]
                [])))
     (PyStr ''m'') (PyStr ''SIMPLE'') (PyInt 5) (PyList [PyStr ''AWS_US_WEST_1''])
     (PyStr ''ENABLED'') []
   = Inr ''abc-123''"
  using create_returns_trailing_segment
    [of "stub ''https://synthetics.newrelic.com/synthetics/api/v1/''
             (Inl (TransportError ''unused''))
             (Inr (reply 201
                [(''Location'', ''https://synthetics.newrelic.com/synthetics/api/v1/monitors/abc-123'')]
                []))"
        "PyStr ''m''" "PyStr ''SIMPLE''" "PyInt 5" "PyList [PyStr ''AWS_US_WEST_1'']"
        "PyStr ''ENABLED''" "[]"
        "reply 201
           [(''Location'', ''https://synthetics.newrelic.com/synthetics/api/v1/monitors/abc-123'')]
           []"
        "''https://synthetics.newrelic.com/synthetics/api/v1/monitors/abc-123''"]
  by (simp add: stub_simps reply_simps create_def create_result_def rsplit1_def index_last_def)

text \<open>
  C8. Whenever the POST issued by \<open>create\<close> returns a response without a \<open>Location\<close>
  header, \<open>create\<close> does not return an id: the header lookup raises \<open>KeyError\<close>.
\<close>

theorem create_fails_without_location:
  assumes "prim_post self (create_request self name type' frequency locations status kwargs) = Inr r"
    and "resp_headers r ''Location'' = None"
  shows "create self name type' frequency locations status kwargs = Inl (KeyError ''Location'')"
  using assms by (simp add: create_def create_result_def)

theorem create_fails_without_location_witness:
  "create (stub ''https://synthetics.newrelic.com/synthetics/api/v1/''
             (Inl (TransportError ''unused''))
             (Inr (reply 201 [(''Content-Type'', ''application/json'')] [])))
     (PyStr ''m'') (PyStr ''SIMPLE'') (PyInt 5) (PyList [PyStr ''AWS_US_WEST_1''])
     (PyStr ''ENABLED'') []
   = Inl (KeyError ''Location'')"
  using create_fails_without_location
    [of "stub ''https://synthetics.newrelic.com/synthetics/api/v1/''
             (Inl (TransportError ''unused''))
             (Inr (reply 201 [(''Content-Type'', ''application/json'')] []))"
        "PyStr ''m''" "PyStr ''SIMPLE''" "PyInt 5" "PyList [PyStr ''AWS_US_WEST_1'']"
        "PyStr ''ENABLED''" "[]"
        "reply 201 [(''Content-Type'', ''application/json'')] []"]
  by (simp add: stub_simps reply_simps)



text \<open>
  C10. For the same name, type, frequency, locations, status and extra keyword fields,
  \<open>create\<close> and \<open>update\<close> assemble the same payload dictionary, and that is the payload
  each of them passes to the transport.
\<close>

theorem create_update_same_payload:
  "create_data name type' frequency locations status kwargs
     = update_data name type' frequency locations status kwargs
   \<and> data (create_request self name type' frequency locations status kwargs)
     = data (update_request self id' name type' frequency locations status kwargs)"
  by (simp add: create_data_def update_data_def create_request_def update_request_def)

text \<open>
  C5. Without \<open>scriptLocations\<close> the body sent by \<open>update_script\<close> holds the single key
  \<open>scriptText\<close>; with \<open>scriptLocations\<close> it holds \<open>scriptText\<close> and, under the key
  \<open>scriptLocations\<close>, the caller's value unchanged.
\<close>

theorem update_script_body:
  "update_script_data scriptText None = [(''scriptText'', scriptText)]
   \<and> update_script_data scriptText (Some sl)
       = [(''scriptText'', scriptText), (''scriptLocations'', sl)]
   \<and> data (update_script_request self id' scriptText scriptLocations)
       = Some (update_script_data scriptText scriptLocations)
   \<and> update_script self id' scriptText scriptLocations
       = (case prim_put self (update_script_request self id' scriptText scriptLocations) of
            Inl e \<Rightarrow> Inl e
          | Inr response \<Rightarrow> Inr (ok response))"
  by (simp add: update_script_data_def update_script_request_def update_script_def
           split: sum.splits)


text \<open>
  C9. \<open>list\<close> with page 0 builds the same filters, and so issues the same request and
  returns the same result, as \<open>list\<close> without a page: the page is tested for truthiness,
  and both give the single filter \<open>None\<close>.
\<close>

theorem list_page_zero_is_no_page:
  "list_filters (Some (AInt 0)) = [None]
   \<and> list_filters None = [None]
   \<and> list_request self (Some (AInt 0)) = list_request self None
   \<and> list_monitors self (Some (AInt 0)) = list_monitors self None"
  by (simp add: list_filters_def list_request_def list_monitors_def)

text \<open>
  C4. For a positive page \<open>n\<close>, \<open>list\<close> issues its GET with the query string \<open>page=\<close>
  followed by the decimal numeral of \<open>n\<close> and nothing else; without a page the query
  string is empty.
\<close>

theorem list_page_query:
  assumes "0 < n"
  shows "list_filters (Some (AInt n)) = [Some (''page='' @ str_int n)]
       \<and> params (list_request self (Some (AInt n))) = Some (''page='' @ str_int n)
       \<and> digits_value (str_int n) = nat n
       \<and> list_filters None = [None]
       \<and> params (list_request self None) = Some []
       \<and> list_monitors self (Some (AInt n)) = prim_get self (list_request self (Some (AInt n)))
       \<and> list_monitors self None = prim_get self (list_request self None)"
  using assms
  by (simp add: list_filters_def list_request_def list_monitors_def build_param_string_def
        str_int_def digits_value_str_nat)

theorem list_page_query_witness:
  "params (list_request (stub ''https://synthetics.newrelic.com/synthetics/api/v1/''
                            (Inr (PyDict [(''monitors'', PyList [])]))
                            (Inl (TransportError ''unused'')))
                        (Some (AInt 2)))
     = Some ''page=2''"
proof -
  have h: "(0::int) < 2" by simp
  have e: "str_int 2 = ''2''" by code_simp
  show ?thesis
    using list_page_query [OF h, of "stub ''https://synthetics.newrelic.com/synthetics/api/v1/''
                            (Inr (PyDict [(''monitors'', PyList [])]))
                            (Inl (TransportError ''unused''))"]
    by (simp add: e)
qed

text \<open>
  C1, as stated, fails: \<open>update\<close> tests \<open>response.ok\<close>, not the status code, and a response
  with status 304 is not a 2xx response, yet it is \<open>ok\<close> and \<open>update\<close> returns true.
\<close>

theorem update_true_on_status_304:
  "update (stub ''https://synthetics.newrelic.com/synthetics/api/v1/''
             (Inl (TransportError ''unused''))
             (Inr (reply 304 [] [])))
     (AStr ''abc-123'') (PyStr ''m'') (PyStr ''SIMPLE'') (PyInt 5)
     (PyList [PyStr ''AWS_US_WEST_1'']) (PyStr ''ENABLED'') []
   = Inr True
   \<and> \<not> (200 \<le> status_code (reply 304 [] []) \<and> status_code (reply 304 [] []) < 300)"
  by (simp add: update_def stub_simps reply_simps ok_def)

text \<open>
  C1, amended. For every response to the PUT issued by \<open>update\<close>, whatever its body,
  \<open>update\<close> returns the response's \<open>ok\<close> flag: true for every status outside 400..599,
  which includes every 2xx status, and false for every 4xx and 5xx status (404, 500).
\<close>

theorem update_returns_response_ok:
  assumes "prim_put self (update_request self id' name type' frequency locations status kwargs)
             = Inr r"
  shows "update self id' name type' frequency locations status kwargs = Inr (ok r)
       \<and> ok r = (status_code r < 400 \<or> 600 \<le> status_code r)
       \<and> (200 \<le> status_code r \<and> status_code r < 300 \<longrightarrow>
            update self id' name type' frequency locations status kwargs = Inr True)
       \<and> (400 \<le> status_code r \<and> status_code r < 600 \<longrightarrow>
            update self id' name type' frequency locations status kwargs = Inr False)"
  using assms by (auto simp: update_def ok_def)

theorem update_returns_response_ok_witness:
  "update (stub ''https://synthetics.newrelic.com/synthetics/api/v1/''
             (Inl (TransportError ''unused''))
             (Inr (reply 204 [] [])))
     (AStr ''abc-123'') (PyStr ''m'') (PyStr ''SIMPLE'') (PyInt 5)
     (PyList [PyStr ''AWS_US_WEST_1'']) (PyStr ''ENABLED'') []
   = Inr True
   \<and> update (stub ''https://synthetics.newrelic.com/synthetics/api/v1/''
             (Inl (TransportError ''unused''))
             (Inr (reply 404 [] ''Not Found'')))
     (AStr ''abc-123'') (PyStr ''m'') (PyStr ''SIMPLE'') (PyInt 5)
     (PyList [PyStr ''AWS_US_WEST_1'']) (PyStr ''ENABLED'') []
   = Inr False"
  using update_returns_response_ok
    [of "stub ''https://synthetics.newrelic.com/synthetics/api/v1/''
             (Inl (TransportError ''unused''))
             (Inr (reply 204 [] []))"
        "AStr ''abc-123''" "PyStr ''m''" "PyStr ''SIMPLE''" "PyInt 5"
        "PyList [PyStr ''AWS_US_WEST_1'']" "PyStr ''ENABLED''" "[]" "reply 204 [] []"]
    update_returns_response_ok
    [of "stub ''https://synthetics.newrelic.com/synthetics/api/v1/''
             (Inl (TransportError ''unused''))
             (Inr (reply 404 [] ''Not Found''))"
        "AStr ''abc-123''" "PyStr ''m''" "PyStr ''SIMPLE''" "PyInt 5"
        "PyList [PyStr ''AWS_US_WEST_1'']" "PyStr ''ENABLED''" "[]" "reply 404 [] ''Not Found''"]
  by (simp add: stub_simps reply_simps)




end
